theory Spec2Isabelle
  imports Main "HOL-Library.Word"
begin

text \<open>
  The client side of CoreAstra's command pipeline: the API service that posts a command for
  execution and reads the event stream, the Terminal component with its confirmation
  dialog and command history, and the App component with its approval modal. Each handler
  is a function on the component's state; an asynchronous handler is cut at its
  \<open>await\<close>s, and the component as a whole is the set of runs of its events.
\<close>

section \<open>JavaScript strings\<close>

text \<open>
  A command is a JavaScript string. It is modelled as a \<^typ>\<open>string\<close> in which a character
  stands for the UTF-16 code unit of the same number, so the model covers the strings whose
  code units are below 256. \<open>String.prototype.trim\<close> removes white space and line
  terminators from both ends; in that range these are tab, line feed, vertical tab, form
  feed, carriage return, space and the no-break space.
\<close>

definition isWhiteSpace :: "char \<Rightarrow> bool" where
  "isWhiteSpace c \<longleftrightarrow>
     c = CHR 0x09 \<or> c = CHR 0x0A \<or> c = CHR 0x0B \<or> c = CHR 0x0C \<or> c = CHR 0x0D \<or>
     c = CHR 0x20 \<or> c = CHR 0xA0"

definition trim :: "string \<Rightarrow> string" where
  "trim s = rev (dropWhile isWhiteSpace (rev (dropWhile isWhiteSpace s)))"

definition startsWith :: "string \<Rightarrow> string \<Rightarrow> bool" where
  "startsWith s p \<longleftrightarrow> take (length p) s = p"

definition slice_from :: "nat \<Rightarrow> string \<Rightarrow> string" where
  "slice_from n s = drop n s"

text \<open>\<open>text.split('\n')\<close>: the pieces between line feeds, the last one included.\<close>

fun split_lf :: "string \<Rightarrow> string list" where
  "split_lf [] = [[]]"
| "split_lf (c # cs) =
     (if c = CHR 0x0A then [] # split_lf cs
      else (case split_lf cs of l # ls \<Rightarrow> (c # l) # ls | [] \<Rightarrow> [[c]]))"

text \<open>Decimal rendering of an integer inside a template literal. The numbers rendered in
  this model are list lengths and 32-bit exit statuses, which JavaScript prints in plain
  decimal.\<close>

definition digit :: "nat \<Rightarrow> char" where
  "digit d = char_of (48 + d)"

fun decimal_nat :: "nat \<Rightarrow> string" where
  "decimal_nat n =
     (if 10 \<le> n then decimal_nat (n div 10) @ [digit (n mod 10)] else [digit n])"

declare decimal_nat.simps [simp del]

definition decimal_int :: "int \<Rightarrow> string" where
  "decimal_int i =
     (if i < 0 then CHR ''-'' # decimal_nat (nat (- i)) else decimal_nat (nat i))"


section \<open>Data model of the terminal client\<close>

text \<open>The shared declarations of \<open>types\<close>: \<open>RiskLevel\<close>, \<open>CommandAnalysis\<close>,
  \<open>CommandResult\<close> and \<open>TerminalLine\<close> (its \<open>id\<close> and \<open>timestamp\<close> are fresh
  values that nothing reads back, and are left out).\<close>

datatype RiskLevel = RL_low | RL_medium | RL_high | RL_critical

fun RiskLevel_literal :: "RiskLevel \<Rightarrow> string" where
  "RiskLevel_literal RL_low = ''low''"
| "RiskLevel_literal RL_medium = ''medium''"
| "RiskLevel_literal RL_high = ''high''"
| "RiskLevel_literal RL_critical = ''critical''"

record CommandAnalysis =
  ca_command :: string
  ca_is_risky :: bool
  ca_risk_level :: RiskLevel
  ca_reason :: string
  ca_affected_paths :: "string list"
  ca_requires_confirmation :: bool
  ca_backup_recommended :: bool

datatype CommandResultType =
  T_output | T_execution_complete | T_error | T_confirmation_required | T_execution_start

fun CommandResultType_literal :: "CommandResultType \<Rightarrow> string" where
  "CommandResultType_literal T_output = ''output''"
| "CommandResultType_literal T_execution_complete = ''execution_complete''"
| "CommandResultType_literal T_error = ''error''"
| "CommandResultType_literal T_confirmation_required = ''confirmation_required''"
| "CommandResultType_literal T_execution_start = ''execution_start''"

datatype StreamName = S_stdout | S_stderr

text \<open>
  An optional property of a parsed event is absent (\<open>undefined\<close>), \<open>null\<close>, or has a
  value; a template literal prints the first two as \<open>undefined\<close> and \<open>null\<close>.
  \<open>exit_code\<close> is declared \<open>number\<close>; the model takes the 32-bit signed integers, the
  exit statuses of a process.
\<close>

datatype 'a optional = Undefined | Null | Defined 'a

record CommandResult =
  cr_type :: CommandResultType
  cr_stream :: "StreamName optional"
  cr_content :: "string optional"
  cr_exit_code :: "32 word optional"
  cr_success :: "bool optional"
  cr_stdout :: "string optional"
  cr_stderr :: "string optional"
  cr_message :: "string optional"
  cr_analysis :: "CommandAnalysis optional"
  cr_backups :: "(string \<times> string) list optional"

datatype LineType = L_input | L_output | L_error | L_info | L_warning

record TerminalLine =
  tl_type :: LineType
  tl_content :: string

text \<open>A rejected promise: the error's \<open>message\<close> and, for an HTTP error answer,
  \<open>response.data.detail\<close>.\<close>

record js_error =
  err_message :: string
  err_detail :: "string option"

section \<open>The API service\<close>

text \<open>The JSON body that \<open>terminalApi.execute(command, confirmed, onData)\<close> posts.\<close>

record ExecuteBody =
  eb_command :: string
  eb_confirmed :: bool
  eb_create_backup :: bool

definition terminalApi_execute_body :: "string \<Rightarrow> bool \<Rightarrow> ExecuteBody" where
  "terminalApi_execute_body command confirmed =
     \<lparr>eb_command = command, eb_confirmed = confirmed, eb_create_backup = True\<rparr>"

text \<open>
  One round of the read loop of \<open>terminalApi.execute\<close>: the decoded chunk is split at line
  feeds, the lines starting with \<open>data: \<close> are kept, and what follows the prefix is given
  to \<open>JSON.parse\<close>. The platform's \<open>JSON.parse\<close> is a parameter; \<open>None\<close> is a thrown
  SyntaxError, which the loop reports with \<open>console.error\<close> and then goes on.
\<close>

definition sse_payloads :: "string \<Rightarrow> string list" where
  "sse_payloads text =
     map (slice_from 6) (filter (\<lambda>line. startsWith line ''data: '') (split_lf text))"

definition terminalApi_execute_chunk ::
  "(string \<Rightarrow> CommandResult option) \<Rightarrow> (CommandResult \<Rightarrow> 's \<Rightarrow> 's) \<Rightarrow> (string \<Rightarrow> 's \<Rightarrow> 's)
     \<Rightarrow> string \<Rightarrow> 's \<Rightarrow> 's" where
  "terminalApi_execute_chunk JSON_parse onData console_error text s =
     foldl (\<lambda>s' payload.
              case JSON_parse payload of
                Some data \<Rightarrow> onData data s'
              | None \<Rightarrow> console_error ''Failed to parse SSE data:'' s')
           s (sse_payloads text)"


section \<open>The Terminal component\<close>

text \<open>
  An \<open>async\<close> handler runs until its next \<open>await\<close> and resumes when the awaited request
  settles; other handlers may run in between. The outstanding requests are kept in
  \<open>pending\<close>, and everything the component sends or logs is appended to \<open>trace\<close>.
\<close>

datatype pending =
    AwaitGetCurrentDirectory
  | AwaitAnalyze string
  | AwaitChangeDirectory string
  | AwaitExecute ExecuteBody

datatype effect =
    Request pending
  | ConsoleError string
  | ConsoleLog string
  | OnCommandExecuted string CommandResult

record ConfirmDialog =
  cd_open :: bool
  cd_command :: string
  cd_analysis :: "CommandAnalysis option"

record terminal =
  input :: string
  lines :: "TerminalLine list"
  currentDir :: string
  isExecuting :: bool
  history :: "string list"
  historyIndex :: int
  confirmDialog :: ConfirmDialog
  pending :: "pending list"
  trace :: "effect list"

definition closedDialog :: ConfirmDialog where
  "closedDialog = \<lparr>cd_open = False, cd_command = [], cd_analysis = None\<rparr>"

definition initial_terminal :: terminal where
  "initial_terminal =
     \<lparr>input = [], lines = [], currentDir = [], isExecuting = False, history = [],
      historyIndex = - 1, confirmDialog = closedDialog,
      pending = [AwaitGetCurrentDirectory], trace = [Request AwaitGetCurrentDirectory]\<rparr>"

definition addLine :: "LineType \<Rightarrow> string \<Rightarrow> terminal \<Rightarrow> terminal" where
  "addLine ty c s = s\<lparr>lines := lines s @ [\<lparr>tl_type = ty, tl_content = c\<rparr>]\<rparr>"

definition emit :: "effect \<Rightarrow> terminal \<Rightarrow> terminal" where
  "emit e s = s\<lparr>trace := trace s @ [e]\<rparr>"

definition await :: "pending \<Rightarrow> terminal \<Rightarrow> terminal" where
  "await p s = s\<lparr>pending := pending s @ [p], trace := trace s @ [Request p]\<rparr>"

definition settle :: "pending \<Rightarrow> terminal \<Rightarrow> terminal" where
  "settle p s = s\<lparr>pending := remove1 p (pending s)\<rparr>"

text \<open>\<open>setIsExecuting(true)\<close> followed by the call of \<open>terminalApi.execute\<close>.\<close>

definition startExecute :: "string \<Rightarrow> bool \<Rightarrow> terminal \<Rightarrow> terminal" where
  "startExecute command confirmed s =
     await (AwaitExecute (terminalApi_execute_body command confirmed)) (s\<lparr>isExecuting := True\<rparr>)"

text \<open>\<open>handleCommand(command, confirmed)\<close> up to its first \<open>await\<close>.\<close>

definition handleCommand :: "string \<Rightarrow> bool \<Rightarrow> terminal \<Rightarrow> terminal" where
  "handleCommand command confirmed s =
     (if trim command = [] then s
      else
        let s1 = s\<lparr>history := filter (\<lambda>c. c \<noteq> command) (history s) @ [command],
                    historyIndex := - 1\<rparr>;
            trimmedCommand = trim command
        in if trimmedCommand = ''clear'' \<or> trimmedCommand = ''cls'' then s1\<lparr>lines := []\<rparr>
           else if startsWith trimmedCommand ''cd '' then
             await (AwaitChangeDirectory (trim (slice_from 3 trimmedCommand))) s1
           else
             let s2 = addLine L_input (currentDir s @ ''> '' @ command) s1
             in if \<not> confirmed then await (AwaitAnalyze command) s2
                else startExecute command confirmed s2)"

text \<open>The rest of the \<open>cd\<close> branch, once \<open>terminalApi.changeDirectory\<close> has settled.\<close>

definition handleCommand_changedDirectory :: "js_error + string \<Rightarrow> terminal \<Rightarrow> terminal" where
  "handleCommand_changedDirectory r s =
     (case r of
        Inr path \<Rightarrow> addLine L_info (''Changed directory to: '' @ path) (s\<lparr>currentDir := path\<rparr>)
      | Inl e \<Rightarrow>
          addLine L_error
            (''Error: '' @ (case err_detail e of
                              Some d \<Rightarrow> if d = [] then err_message e else d
                            | None \<Rightarrow> err_message e)) s)"

text \<open>The rest of the confirmation check, once \<open>terminalApi.analyze\<close> has settled: the
  dialog is opened and the handler returns, or the handler goes on to execute; a rejected
  analysis is logged in the \<open>catch\<close> block and the handler goes on as well.\<close>

definition handleCommand_analyzed ::
  "string \<Rightarrow> js_error + CommandAnalysis \<Rightarrow> terminal \<Rightarrow> terminal" where
  "handleCommand_analyzed command r s =
     (case r of
        Inr analysis \<Rightarrow>
          if ca_requires_confirmation analysis then
            s\<lparr>confirmDialog :=
                \<lparr>cd_open = True, cd_command = command, cd_analysis = Some analysis\<rparr>\<rparr>
          else startExecute command False s
      | Inl e \<Rightarrow> startExecute command False (emit (ConsoleError ''Analysis failed:'') s))"

text \<open>The \<open>onData\<close> callback that \<open>handleCommand\<close> passes to \<open>terminalApi.execute\<close>.\<close>

definition handleCommand_onData :: "string \<Rightarrow> CommandResult \<Rightarrow> terminal \<Rightarrow> terminal" where
  "handleCommand_onData command data s =
     (if cr_type data = T_output then
        addLine (if cr_stream data = Defined S_stderr then L_error else L_output)
          (case cr_content data of Defined c \<Rightarrow> c | _ \<Rightarrow> []) s
      else if cr_type data = T_execution_complete then
        emit (OnCommandExecuted command data)
          (if cr_success data \<noteq> Defined True then
             addLine L_error
               (''Command exited with code '' @
                  (case cr_exit_code data of
                     Defined n \<Rightarrow> decimal_int (sint n)
                   | Null \<Rightarrow> ''null''
                   | Undefined \<Rightarrow> ''undefined'')) s
           else s)
      else if cr_type data = T_error then
        addLine L_error
          (''Error: '' @
             (case cr_message data of
                Defined m \<Rightarrow> m
              | Null \<Rightarrow> ''null''
              | Undefined \<Rightarrow> ''undefined'')) s
      else if cr_type data = T_execution_start then
        (case cr_backups data of
           Defined bs \<Rightarrow>
             if bs \<noteq> [] then
               addLine L_info
                 (''Created '' @ decimal_nat (length bs) @ '' backup(s) before execution'') s
             else s
         | _ \<Rightarrow> s)
      else s)"

text \<open>The \<open>catch\<close> and \<open>finally\<close> blocks, once \<open>terminalApi.execute\<close> has settled.\<close>

definition handleCommand_executed :: "js_error option \<Rightarrow> terminal \<Rightarrow> terminal" where
  "handleCommand_executed r s =
     (case r of
        Some e \<Rightarrow> (addLine L_error (''Execution failed: '' @ err_message e) s)\<lparr>isExecuting := False\<rparr>
      | None \<Rightarrow> s\<lparr>isExecuting := False\<rparr>)"

definition handleConfirmExecution :: "terminal \<Rightarrow> terminal" where
  "handleConfirmExecution s =
     (let command = cd_command (confirmDialog s)
      in handleCommand command True (s\<lparr>confirmDialog := closedDialog\<rparr>))"

text \<open>The mount effect \<open>loadInitialDirectory\<close>, once \<open>getCurrentDirectory\<close> has settled.\<close>

definition loadInitialDirectory_settled :: "js_error + string \<Rightarrow> terminal \<Rightarrow> terminal" where
  "loadInitialDirectory_settled r s =
     (case r of
        Inr path \<Rightarrow>
          addLine L_info []
            (addLine L_info (''Current directory: '' @ path)
               (addLine L_info
                  (CHR 0xC2 # CHR 0xA9 # '' GROWEAGLES TECHSOUL PRIVATE LIMITED (TECHSOUL)'')
                  (addLine L_info ''CoreAstra Terminal v1.0.0'' (s\<lparr>currentDir := path\<rparr>))))
      | Inl e \<Rightarrow>
          addLine L_error
            (''Failed to connect to backend services: '' @
               (if err_message e = [] then ''Unable to reach the CoreAstra backend.''
                else err_message e))
            (s\<lparr>currentDir := ''(offline)''\<rparr>))"

datatype key = Enter bool | ArrowUp | ArrowDown | OtherKey

text \<open>\<open>history[i] || ""\<close>: an index out of range reads \<open>undefined\<close>.\<close>

definition history_at :: "string list \<Rightarrow> int \<Rightarrow> string" where
  "history_at h i = (if 0 \<le> i \<and> i < int (length h) then h ! nat i else [])"

definition handleKeyDown :: "key \<Rightarrow> terminal \<Rightarrow> terminal" where
  "handleKeyDown k s =
     (case k of
        Enter shiftKey \<Rightarrow>
          if \<not> shiftKey then (handleCommand (input s) False s)\<lparr>input := []\<rparr> else s
      | ArrowUp \<Rightarrow>
          if length (history s) > 0 then
            let newIndex = (if historyIndex s < int (length (history s)) - 1
                            then historyIndex s + 1 else historyIndex s)
            in s\<lparr>historyIndex := newIndex,
                 input := history_at (history s) (int (length (history s)) - 1 - newIndex)\<rparr>
          else s
      | ArrowDown \<Rightarrow>
          if historyIndex s > 0 then
            let newIndex = historyIndex s - 1
            in s\<lparr>historyIndex := newIndex,
                 input := history_at (history s) (int (length (history s)) - 1 - newIndex)\<rparr>
          else if historyIndex s = 0 then s\<lparr>historyIndex := - 1, input := []\<rparr>
          else s
      | OtherKey \<Rightarrow> s)"


subsection \<open>Events of the component\<close>

text \<open>
  What can happen to a mounted Terminal: the user acts on a control that is rendered and
  not disabled, or one of the outstanding requests makes progress. The text field is
  \<open>disabled={isExecuting}\<close>, the send button is
  \<open>disabled={isExecuting || !input.trim()}\<close>, and the two dialog buttons exist while the
  dialog is open.
\<close>

datatype event =
    Change string
  | KeyDown key
  | SendClick
  | ExecuteAnywayClick
  | DialogCancel
  | GetCurrentDirectorySettled "js_error + string"
  | AnalyzeSettled string "js_error + CommandAnalysis"
  | ChangeDirectorySettled string "js_error + string"
  | ExecuteChunk ExecuteBody string
  | ExecuteSettled ExecuteBody "js_error option"

fun enabled :: "event \<Rightarrow> terminal \<Rightarrow> bool" where
  "enabled (Change v) s = (\<not> isExecuting s)"
| "enabled (KeyDown k) s = (\<not> isExecuting s)"
| "enabled SendClick s = (\<not> (isExecuting s \<or> trim (input s) = []))"
| "enabled ExecuteAnywayClick s = cd_open (confirmDialog s)"
| "enabled DialogCancel s = cd_open (confirmDialog s)"
| "enabled (GetCurrentDirectorySettled r) s = (AwaitGetCurrentDirectory \<in> set (pending s))"
| "enabled (AnalyzeSettled command r) s = (AwaitAnalyze command \<in> set (pending s))"
| "enabled (ChangeDirectorySettled path r) s = (AwaitChangeDirectory path \<in> set (pending s))"
| "enabled (ExecuteChunk body text) s = (AwaitExecute body \<in> set (pending s))"
| "enabled (ExecuteSettled body r) s = (AwaitExecute body \<in> set (pending s))"

fun fire :: "(string \<Rightarrow> CommandResult option) \<Rightarrow> event \<Rightarrow> terminal \<Rightarrow> terminal" where
  "fire P (Change v) s = s\<lparr>input := v\<rparr>"
| "fire P (KeyDown k) s = handleKeyDown k s"
| "fire P SendClick s = (handleCommand (input s) False s)\<lparr>input := []\<rparr>"
| "fire P ExecuteAnywayClick s = handleConfirmExecution s"
| "fire P DialogCancel s = s\<lparr>confirmDialog := closedDialog\<rparr>"
| "fire P (GetCurrentDirectorySettled r) s =
     loadInitialDirectory_settled r (settle AwaitGetCurrentDirectory s)"
| "fire P (AnalyzeSettled command r) s =
     handleCommand_analyzed command r (settle (AwaitAnalyze command) s)"
| "fire P (ChangeDirectorySettled path r) s =
     handleCommand_changedDirectory r (settle (AwaitChangeDirectory path) s)"
| "fire P (ExecuteChunk body text) s =
     terminalApi_execute_chunk P (handleCommand_onData (eb_command body))
       (\<lambda>m. emit (ConsoleError m)) text s"
| "fire P (ExecuteSettled body r) s =
     handleCommand_executed r (settle (AwaitExecute body) s)"

text \<open>A run fires the events in order; it is \<open>None\<close> when some event is not enabled
  in the state it meets.\<close>

fun run :: "(string \<Rightarrow> CommandResult option) \<Rightarrow> event list \<Rightarrow> terminal \<Rightarrow> terminal option" where
  "run P [] s = Some s"
| "run P (e # es) s = (if enabled e s then run P es (fire P e s) else None)"

text \<open>The execute requests among the effects, and those still in flight.\<close>

fun executeRequests :: "effect list \<Rightarrow> ExecuteBody list" where
  "executeRequests [] = []"
| "executeRequests (Request (AwaitExecute b) # tr) = b # executeRequests tr"
| "executeRequests (_ # tr) = executeRequests tr"

fun inFlightOf :: "pending list \<Rightarrow> ExecuteBody list" where
  "inFlightOf [] = []"
| "inFlightOf (AwaitExecute b # ps) = b # inFlightOf ps"
| "inFlightOf (_ # ps) = inFlightOf ps"

definition inFlight :: "terminal \<Rightarrow> ExecuteBody list" where
  "inFlight s = inFlightOf (pending s)"


text \<open>The analyze requests among the effects: one for every submission that reached the
  confirmation check.\<close>

fun analyzeRequests :: "effect list \<Rightarrow> string list" where
  "analyzeRequests [] = []"
| "analyzeRequests (Request (AwaitAnalyze c) # tr) = c # analyzeRequests tr"
| "analyzeRequests (_ # tr) = analyzeRequests tr"

text \<open>The two tests by which \<open>handleCommand\<close> recognises a built-in command.\<close>

definition builtIn :: "string \<Rightarrow> bool" where
  "builtIn command \<longleftrightarrow>
     trim command = ''clear'' \<or> trim command = ''cls'' \<or> startsWith (trim command) ''cd ''"

section \<open>The App component and its approval modal\<close>

text \<open>App and ApprovalModal each declare a \<open>CommandAnalysis\<close> interface of their own, the
  same in both files and different from the shared one above.\<close>

datatype ApprovalRiskLevel = AR_safe | AR_low | AR_medium | AR_high | AR_critical

fun ApprovalRiskLevel_literal :: "ApprovalRiskLevel \<Rightarrow> string" where
  "ApprovalRiskLevel_literal AR_safe = ''safe''"
| "ApprovalRiskLevel_literal AR_low = ''low''"
| "ApprovalRiskLevel_literal AR_medium = ''medium''"
| "ApprovalRiskLevel_literal AR_high = ''high''"
| "ApprovalRiskLevel_literal AR_critical = ''critical''"

text \<open>\<open>risk_score\<close> is declared \<open>number\<close>; the model takes the integers.\<close>

record ApprovalAnalysis =
  aa_risk_level :: ApprovalRiskLevel
  aa_risk_score :: int
  aa_category :: string
  aa_actions :: "string list"
  aa_affected_paths :: "string list"
  aa_reversible :: bool
  aa_requires_sudo :: bool
  aa_warnings :: "string list"
  aa_recommendations :: "string list"

text \<open>The table \<open>riskConfig\<close> of ApprovalModal, without the icons.\<close>

record RiskConfig =
  rc_color :: string
  rc_label :: string
  rc_progressColor :: string

fun riskConfig :: "ApprovalRiskLevel \<Rightarrow> RiskConfig" where
  "riskConfig AR_safe =
     \<lparr>rc_color = ''success'', rc_label = ''Safe'', rc_progressColor = ''success''\<rparr>"
| "riskConfig AR_low =
     \<lparr>rc_color = ''info'', rc_label = ''Low Risk'', rc_progressColor = ''info''\<rparr>"
| "riskConfig AR_medium =
     \<lparr>rc_color = ''warning'', rc_label = ''Medium Risk'', rc_progressColor = ''warning''\<rparr>"
| "riskConfig AR_high =
     \<lparr>rc_color = ''error'', rc_label = ''High Risk'', rc_progressColor = ''error''\<rparr>"
| "riskConfig AR_critical =
     \<lparr>rc_color = ''error'', rc_label = ''Critical'', rc_progressColor = ''error''\<rparr>"

datatype TabType =
  Tab_terminal | Tab_chat | Tab_planner | Tab_monitor | Tab_files | Tab_connections

text \<open>
  The approval state of App, together with the two state variables of the ApprovalModal
  it always renders (\<open>createBackup\<close>, initially \<open>true\<close>, and \<open>countdown\<close>, initially
  \<open>null\<close>), the outstanding requests and the effects so far.
\<close>

record app =
  activeTab :: TabType
  approvalModalOpen :: bool
  pendingCommand :: "string option"
  commandAnalysis :: "ApprovalAnalysis option"
  approvalLoading :: bool
  createBackup :: bool
  countdown :: "int option"
  app_pending :: "pending list"
  app_trace :: "effect list"

definition initial_app :: app where
  "initial_app =
     \<lparr>activeTab = Tab_terminal, approvalModalOpen = False, pendingCommand = None,
      commandAnalysis = None, approvalLoading = False, createBackup = True,
      countdown = None, app_pending = [], app_trace = []\<rparr>"

definition app_emit :: "effect \<Rightarrow> app \<Rightarrow> app" where
  "app_emit e s = s\<lparr>app_trace := app_trace s @ [e]\<rparr>"

definition app_await :: "pending \<Rightarrow> app \<Rightarrow> app" where
  "app_await p s = s\<lparr>app_pending := app_pending s @ [p], app_trace := app_trace s @ [Request p]\<rparr>"

definition app_settle :: "pending \<Rightarrow> app \<Rightarrow> app" where
  "app_settle p s = s\<lparr>app_pending := remove1 p (app_pending s)\<rparr>"

text \<open>\<open>handleRunCommand(command)\<close> up to its \<open>await\<close>, and the rest of it.\<close>

definition handleRunCommand :: "string \<Rightarrow> app \<Rightarrow> app" where
  "handleRunCommand command s = app_await (AwaitAnalyze command) (s\<lparr>activeTab := Tab_terminal\<rparr>)"

definition handleRunCommand_analyzed ::
  "string \<Rightarrow> js_error + ApprovalAnalysis \<Rightarrow> app \<Rightarrow> app" where
  "handleRunCommand_analyzed command r s =
     (case r of
        Inr analysis \<Rightarrow>
          if aa_risk_level analysis = AR_high \<or> aa_risk_level analysis = AR_critical then
            s\<lparr>pendingCommand := Some command, commandAnalysis := Some analysis,
              approvalModalOpen := True\<rparr>
          else s
      | Inl e \<Rightarrow> app_emit (ConsoleError ''Command analysis failed:'') s)"

text \<open>\<open>handleApproveCommand(createBackup)\<close> up to its \<open>await\<close>: \<open>!pendingCommand\<close> holds
  for \<open>null\<close> and for the empty string.\<close>

definition handleApproveCommand :: "bool \<Rightarrow> app \<Rightarrow> app" where
  "handleApproveCommand createBackup' s =
     (case pendingCommand s of
        None \<Rightarrow> s
      | Some command \<Rightarrow>
          if command = [] then s
          else app_await (AwaitExecute (terminalApi_execute_body command True))
                 (s\<lparr>approvalLoading := True\<rparr>))"

definition handleApproveCommand_onData :: "CommandResult \<Rightarrow> app \<Rightarrow> app" where
  "handleApproveCommand_onData data s = app_emit (ConsoleLog ''Command output:'') s"

definition handleApproveCommand_executed :: "js_error option \<Rightarrow> app \<Rightarrow> app" where
  "handleApproveCommand_executed r s =
     (case r of
        None \<Rightarrow>
          s\<lparr>approvalModalOpen := False, pendingCommand := None, commandAnalysis := None,
            approvalLoading := False\<rparr>
      | Some e \<Rightarrow>
          (app_emit (ConsoleError ''Command execution failed:'') s)\<lparr>approvalLoading := False\<rparr>)"

definition handleRejectCommand :: "app \<Rightarrow> app" where
  "handleRejectCommand s =
     s\<lparr>approvalModalOpen := False, pendingCommand := None, commandAnalysis := None\<rparr>"

text \<open>
  The first effect of ApprovalModal runs after a render in which \<open>open\<close> or
  \<open>analysis?.risk_level\<close> has changed, and sets the countdown to 5 for an open modal with
  a critical analysis and to \<open>null\<close> otherwise. The second effect arms a timer of 1000 ms
  while the countdown is positive; \<open>Tick\<close> below is that timer firing.
\<close>

definition countdownDeps :: "app \<Rightarrow> bool \<times> ApprovalRiskLevel option" where
  "countdownDeps s = (approvalModalOpen s, map_option aa_risk_level (commandAnalysis s))"

definition ApprovalModal_effect :: "app \<Rightarrow> app \<Rightarrow> app" where
  "ApprovalModal_effect old new =
     (if countdownDeps new \<noteq> countdownDeps old then
        new\<lparr>countdown :=
              (if approvalModalOpen new \<and>
                  map_option aa_risk_level (commandAnalysis new) = Some AR_critical
               then Some 5 else None)\<rparr>
      else new)"

definition timerTick :: "app \<Rightarrow> app" where
  "timerTick s =
     (case countdown s of
        Some n \<Rightarrow> if n > 0 then s\<lparr>countdown := Some (n - 1)\<rparr> else s
      | None \<Rightarrow> s)"

text \<open>The \<open>disabled\<close> property of the approve button.\<close>

definition approveDisabled :: "app \<Rightarrow> bool" where
  "approveDisabled s \<longleftrightarrow>
     approvalLoading s \<or> (case countdown s of Some n \<Rightarrow> n > 0 | None \<Rightarrow> False)"

datatype app_event =
    RunCommand string
  | ApproveClick
  | CancelClick
  | ModalClose
  | BackupCheckbox bool
  | Tick
  | AppAnalyzeSettled string "js_error + ApprovalAnalysis"
  | AppExecuteChunk ExecuteBody string
  | AppExecuteSettled ExecuteBody "js_error option"

text \<open>The modal renders nothing without an analysis; its checkbox is rendered for an
  analysis that is not reversible, and its cancel button is disabled while loading.\<close>

definition modalShown :: "app \<Rightarrow> bool" where
  "modalShown s \<longleftrightarrow> approvalModalOpen s \<and> commandAnalysis s \<noteq> None"

fun app_enabled :: "app_event \<Rightarrow> app \<Rightarrow> bool" where
  "app_enabled (RunCommand command) s = True"
| "app_enabled ApproveClick s = (modalShown s \<and> \<not> approveDisabled s)"
| "app_enabled CancelClick s = (modalShown s \<and> \<not> approvalLoading s)"
| "app_enabled ModalClose s = modalShown s"
| "app_enabled (BackupCheckbox b) s =
     (modalShown s \<and> (case commandAnalysis s of Some a \<Rightarrow> \<not> aa_reversible a | None \<Rightarrow> False))"
| "app_enabled Tick s = (case countdown s of Some n \<Rightarrow> n > 0 | None \<Rightarrow> False)"
| "app_enabled (AppAnalyzeSettled command r) s = (AwaitAnalyze command \<in> set (app_pending s))"
| "app_enabled (AppExecuteChunk body text) s = (AwaitExecute body \<in> set (app_pending s))"
| "app_enabled (AppExecuteSettled body r) s = (AwaitExecute body \<in> set (app_pending s))"

fun app_handle :: "(string \<Rightarrow> CommandResult option) \<Rightarrow> app_event \<Rightarrow> app \<Rightarrow> app" where
  "app_handle P (RunCommand command) s = handleRunCommand command s"
| "app_handle P ApproveClick s = handleApproveCommand (createBackup s) s"
| "app_handle P CancelClick s = handleRejectCommand s"
| "app_handle P ModalClose s = handleRejectCommand s"
| "app_handle P (BackupCheckbox b) s = s\<lparr>createBackup := b\<rparr>"
| "app_handle P Tick s = timerTick s"
| "app_handle P (AppAnalyzeSettled command r) s =
     handleRunCommand_analyzed command r (app_settle (AwaitAnalyze command) s)"
| "app_handle P (AppExecuteChunk body text) s =
     terminalApi_execute_chunk P handleApproveCommand_onData
       (\<lambda>m. app_emit (ConsoleError m)) text s"
| "app_handle P (AppExecuteSettled body r) s =
     handleApproveCommand_executed r (app_settle (AwaitExecute body) s)"

definition app_fire :: "(string \<Rightarrow> CommandResult option) \<Rightarrow> app_event \<Rightarrow> app \<Rightarrow> app" where
  "app_fire P e s = ApprovalModal_effect s (app_handle P e s)"

fun app_run :: "(string \<Rightarrow> CommandResult option) \<Rightarrow> app_event list \<Rightarrow> app \<Rightarrow> app option" where
  "app_run P [] s = Some s"
| "app_run P (e # es) s = (if app_enabled e s then app_run P es (app_fire P e s) else None)"

text \<open>The states a run passes through, one after each event.\<close>

fun app_states :: "(string \<Rightarrow> CommandResult option) \<Rightarrow> app_event list \<Rightarrow> app \<Rightarrow> app list" where
  "app_states P [] s = []"
| "app_states P (e # es) s = app_fire P e s # app_states P es (app_fire P e s)"

section \<open>Example inputs\<close>

definition rm_project :: string where
  "rm_project = ''rm -rf /tmp/project''"

definition rm_analysis :: CommandAnalysis where
  "rm_analysis =
     \<lparr>ca_command = rm_project, ca_is_risky = True, ca_risk_level = RL_critical,
      ca_reason = ''Recursive forced deletion'', ca_affected_paths = [''/tmp/project''],
      ca_requires_confirmation = True, ca_backup_recommended = True\<rparr>"

definition plain_analysis :: "string \<Rightarrow> CommandAnalysis" where
  "plain_analysis command =
     \<lparr>ca_command = command, ca_is_risky = False, ca_risk_level = RL_low, ca_reason = [],
      ca_affected_paths = [], ca_requires_confirmation = False,
      ca_backup_recommended = False\<rparr>"

definition rm_approval :: ApprovalAnalysis where
  "rm_approval =
     \<lparr>aa_risk_level = AR_critical, aa_risk_score = 95, aa_category = ''filesystem'',
      aa_actions = [''delete''], aa_affected_paths = [''/tmp/project''],
      aa_reversible = False, aa_requires_sudo = False,
      aa_warnings = [''Recursive forced deletion''], aa_recommendations = []\<rparr>"

definition rm_root :: string where
  "rm_root = ''rm -rf /''"

text \<open>App with the approval modal just opened for \<open>rm_project\<close>, and a sequence of
  events with four timer ticks, during which a second critical command replaces the
  first in the open modal.\<close>

definition critical_shown :: app where
  "critical_shown =
     app_fire Map.empty (AppAnalyzeSettled rm_project (Inr rm_approval))
       (app_fire Map.empty (RunCommand rm_project) initial_app)"

definition countdown_events :: "app_event list" where
  "countdown_events =
     [Tick, Tick, RunCommand rm_root, AppAnalyzeSettled rm_root (Inr rm_approval),
      BackupCheckbox False, Tick, Tick]"

definition shred_notes :: string where
  "shred_notes = ''shred notes.txt''"

definition shred_approval :: ApprovalAnalysis where
  "shred_approval =
     \<lparr>aa_risk_level = AR_medium, aa_risk_score = 50, aa_category = ''filesystem'',
      aa_actions = [''write''], aa_affected_paths = [''notes.txt''],
      aa_reversible = False, aa_requires_sudo = False,
      aa_warnings = [], aa_recommendations = []\<rparr>"

definition ls_approval :: ApprovalAnalysis where
  "ls_approval =
     \<lparr>aa_risk_level = AR_safe, aa_risk_score = 0, aa_category = ''filesystem'',
      aa_actions = [''read''], aa_affected_paths = [], aa_reversible = True,
      aa_requires_sudo = False, aa_warnings = [], aa_recommendations = []\<rparr>"







text \<open>The terminal after the user has typed a command into the fresh terminal and
  pressed Enter.\<close>

definition entered :: "string \<Rightarrow> terminal" where
  "entered command =
     fire Map.empty (KeyDown (Enter False)) (fire Map.empty (Change command) initial_terminal)"

section \<open>Evaluation and frame lemmas\<close>

lemmas string_defs = trim_def isWhiteSpace_def startsWith_def slice_from_def

lemmas terminal_defs = handleCommand_def handleKeyDown_def handleConfirmExecution_def
  handleCommand_analyzed_def handleCommand_executed_def handleCommand_changedDirectory_def
  startExecute_def terminalApi_execute_body_def addLine_def await_def emit_def settle_def
  closedDialog_def initial_terminal_def entered_def Let_def

lemma foldl_frame:
  assumes "\<And>x s. f (g s x) = f s"
  shows "f (foldl g s xs) = f s"
  using assms by (induction xs arbitrary: s) simp_all

lemma execute_chunk_frame:
  assumes "\<And>d s. f (onData d s) = f s" and "\<And>m s. f (ce m s) = f s"
  shows "f (terminalApi_execute_chunk P onData ce chunk s) = f s"
  unfolding terminalApi_execute_chunk_def
  by (rule foldl_frame) (simp add: assms split: option.split optional.split)

lemma executeRequests_append [simp]:
  "executeRequests (xs @ ys) = executeRequests xs @ executeRequests ys"
  by (induction xs rule: executeRequests.induct) simp_all

lemma analyzeRequests_append [simp]:
  "analyzeRequests (xs @ ys) = analyzeRequests xs @ analyzeRequests ys"
  by (induction xs rule: analyzeRequests.induct) simp_all

lemma inFlightOf_append [simp]: "inFlightOf (xs @ ys) = inFlightOf xs @ inFlightOf ys"
  by (induction xs rule: inFlightOf.induct) simp_all

lemma history_addLine [simp]: "history (addLine ty c s) = history s"
  by (simp add: addLine_def)

lemma history_emit [simp]: "history (emit e s) = history s"
  by (simp add: emit_def)

lemma history_await [simp]: "history (await p s) = history s"
  by (simp add: await_def)

lemma history_settle [simp]: "history (settle p s) = history s"
  by (simp add: settle_def)

lemma history_startExecute [simp]: "history (startExecute c b s) = history s"
  by (simp add: startExecute_def)

lemma trace_addLine [simp]: "trace (addLine ty c s) = trace s"
  by (simp add: addLine_def)

lemma trace_settle [simp]: "trace (settle p s) = trace s"
  by (simp add: settle_def)

lemma trace_emit [simp]: "trace (emit e s) = trace s @ [e]"
  by (simp add: emit_def)

lemma trace_await [simp]: "trace (await p s) = trace s @ [Request p]"
  by (simp add: await_def)

lemma trace_startExecute [simp]:
  "trace (startExecute c b s) = trace s @ [Request (AwaitExecute (terminalApi_execute_body c b))]"
  by (simp add: startExecute_def)

lemma history_handleCommand:
  "history (handleCommand command confirmed s) =
     (if trim command = [] then history s
      else filter (\<lambda>c. c \<noteq> command) (history s) @ [command])"
  by (simp add: handleCommand_def Let_def)

lemma history_onData [simp]: "history (handleCommand_onData c d s) = history s"
  by (simp add: handleCommand_onData_def split: option.split optional.split)

lemma trace_handleCommand:
  "trace (handleCommand command confirmed s) =
     trace s @
     (if trim command = [] \<or> trim command = ''clear'' \<or> trim command = ''cls'' then []
      else if startsWith (trim command) ''cd '' then
        [Request (AwaitChangeDirectory (trim (slice_from 3 (trim command))))]
      else if confirmed then [Request (AwaitExecute (terminalApi_execute_body command True))]
      else [Request (AwaitAnalyze command)])"
  by (simp add: handleCommand_def Let_def)

lemma executeRequests_onData:
  "executeRequests (trace (handleCommand_onData c d s)) = executeRequests (trace s)"
  by (simp add: handleCommand_onData_def split: option.split optional.split)


section \<open>Which events send requests\<close>

lemma history_fire:
  "history (fire P e s) = history s \<or>
   (\<exists>c. history (fire P e s) = filter (\<lambda>x. x \<noteq> c) (history s) @ [c])"
proof (cases e)
  case (KeyDown k)
  then show ?thesis
    by (cases k) (auto simp: handleKeyDown_def history_handleCommand Let_def)
next
  case (ExecuteChunk body chunk)
  then show ?thesis
    by (simp add: execute_chunk_frame)
qed (auto simp: history_handleCommand handleConfirmExecution_def
      loadInitialDirectory_settled_def handleCommand_analyzed_def
      handleCommand_changedDirectory_def handleCommand_executed_def
      split: sum.split option.split)

lemma distinct_fire: "distinct (history s) \<Longrightarrow> distinct (history (fire P e s))"
  using history_fire [of P e s] by auto

lemma distinct_run:
  "run P es s = Some s' \<Longrightarrow> distinct (history s) \<Longrightarrow> distinct (history s')"
  by (induction es arbitrary: s) (auto split: if_splits intro: distinct_fire)

lemma count_list_filter_neq: "count_list (filter (\<lambda>c. c \<noteq> x) xs) x = 0"
  by (induction xs) auto

lemma executeRequests_fire:
  "executeRequests (trace (fire P e s)) =
     executeRequests (trace s) @
     (case e of
        ExecuteAnywayClick \<Rightarrow>
          if trim (cd_command (confirmDialog s)) = [] \<or> builtIn (cd_command (confirmDialog s))
          then [] else [terminalApi_execute_body (cd_command (confirmDialog s)) True]
      | AnalyzeSettled command r \<Rightarrow>
          (case r of
             Inr analysis \<Rightarrow>
               if ca_requires_confirmation analysis then []
               else [terminalApi_execute_body command False]
           | Inl err \<Rightarrow> [terminalApi_execute_body command False])
      | _ \<Rightarrow> [])"
proof (cases e)
  case (KeyDown k)
  then show ?thesis
    by (cases k) (simp_all add: handleKeyDown_def trace_handleCommand)
next
  case (ExecuteChunk body chunk)
  have "executeRequests (trace (terminalApi_execute_chunk P (handleCommand_onData (eb_command body))
          (\<lambda>m. emit (ConsoleError m)) chunk s)) = executeRequests (trace s)"
    by (rule execute_chunk_frame [where f = "\<lambda>s. executeRequests (trace s)"])
       (simp_all add: executeRequests_onData)
  with ExecuteChunk show ?thesis by simp
next
  case ExecuteAnywayClick
  then show ?thesis
    by (simp add: handleConfirmExecution_def trace_handleCommand builtIn_def)
next
  case (AnalyzeSettled command r)
  then show ?thesis
    by (simp add: handleCommand_analyzed_def split: sum.split)
qed (simp_all add: trace_handleCommand loadInitialDirectory_settled_def
      handleCommand_changedDirectory_def handleCommand_executed_def
      split: sum.split option.split)


lemma filter_executeRequests_fire:
  assumes "e \<noteq> ExecuteAnywayClick"
    and "\<And>r. e = AnalyzeSettled command r \<Longrightarrow>
           (case r of Inr a \<Rightarrow> ca_requires_confirmation a | Inl err \<Rightarrow> False)"
  shows "filter (\<lambda>b. eb_command b = command) (executeRequests (trace (fire P e s))) =
         filter (\<lambda>b. eb_command b = command) (executeRequests (trace s))"
proof (cases e)
  case (AnalyzeSettled c r)
  show ?thesis
  proof (cases "c = command")
    case True
    with assms(2) AnalyzeSettled
    have "case r of Inr a \<Rightarrow> ca_requires_confirmation a | Inl err \<Rightarrow> False" by simp
    with AnalyzeSettled show ?thesis
      by (auto simp add: executeRequests_fire simp del: fire.simps split: sum.splits)
  next
    case False
    with AnalyzeSettled show ?thesis
      by (auto simp add: executeRequests_fire terminalApi_execute_body_def
            simp del: fire.simps split: sum.splits)
  qed
qed (use assms(1) in \<open>simp_all add: executeRequests_fire del: fire.simps\<close>)

lemma no_execute_until_approval:
  assumes "run P es s = Some s'"
    and "ExecuteAnywayClick \<notin> set es"
    and "\<forall>r. AnalyzeSettled command r \<in> set es \<longrightarrow>
           (case r of Inr a \<Rightarrow> ca_requires_confirmation a | Inl err \<Rightarrow> False)"
  shows "filter (\<lambda>b. eb_command b = command) (executeRequests (trace s')) =
         filter (\<lambda>b. eb_command b = command) (executeRequests (trace s))"
  using assms
proof (induction es arbitrary: s)
  case Nil
  then show ?case by simp
next
  case (Cons e es)
  from Cons.prems(1) have r: "run P es (fire P e s) = Some s'"
    by (auto split: if_splits)
  have "filter (\<lambda>b. eb_command b = command) (executeRequests (trace s')) =
        filter (\<lambda>b. eb_command b = command) (executeRequests (trace (fire P e s)))"
    using Cons.IH [OF r] Cons.prems(2,3) by simp
  also have "\<dots> = filter (\<lambda>b. eb_command b = command) (executeRequests (trace s))"
    using Cons.prems(2,3) by (intro filter_executeRequests_fire) auto
  finally show ?case .
qed

lemma filter_confirmed_fire:
  assumes "e \<noteq> ExecuteAnywayClick"
  shows "filter eb_confirmed (executeRequests (trace (fire P e s))) =
         filter eb_confirmed (executeRequests (trace s))"
  using assms
  by (cases e)
     (auto simp add: executeRequests_fire terminalApi_execute_body_def
        simp del: fire.simps split: sum.splits)

lemma no_confirmed_execute_without_approval:
  assumes "run P es s = Some s'" and "ExecuteAnywayClick \<notin> set es"
  shows "filter eb_confirmed (executeRequests (trace s')) =
         filter eb_confirmed (executeRequests (trace s))"
  using assms
proof (induction es arbitrary: s)
  case Nil
  then show ?case by simp
next
  case (Cons e es)
  from Cons.prems(1) have r: "run P es (fire P e s) = Some s'"
    by (auto split: if_splits)
  have "filter eb_confirmed (executeRequests (trace s')) =
        filter eb_confirmed (executeRequests (trace (fire P e s)))"
    using Cons.IH [OF r] Cons.prems(2) by simp
  also have "\<dots> = filter eb_confirmed (executeRequests (trace s))"
    using Cons.prems(2) by (intro filter_confirmed_fire) auto
  finally show ?case .
qed

section \<open>The confirmation gate of the terminal\<close>

text \<open>
  Claim C1, as amended. For a command that is neither blank nor built-in,
  \<open>handleCommand(command, false)\<close> sends the analyze request and nothing else, and leaves
  the dialog and \<open>isExecuting\<close> as they are. When the analysis it waits for comes back
  with \<open>requires_confirmation\<close> set, the handler opens the confirmation dialog for that
  command and analysis and returns: it sends nothing and leaves nothing outstanding.
  While the dialog shows the command, a click on Execute Anyway closes the dialog and calls
  \<open>handleCommand(command, true)\<close>, which sets \<open>isExecuting\<close> and sends the execute
  request with \<open>confirmed: true\<close>. Without that click no execute request with
  \<open>confirmed: true\<close> is sent at all, and no execute request for the command is sent as
  long as every later analysis of the command asks for confirmation as well.
\<close>

theorem confirmation_gate:
  assumes "ca_requires_confirmation analysis"
    and "trim command \<noteq> []" and "\<not> builtIn command"
  shows "trace (handleCommand command False s0) = trace s0 @ [Request (AwaitAnalyze command)] \<and>
         pending (handleCommand command False s0) = pending s0 @ [AwaitAnalyze command] \<and>
         confirmDialog (handleCommand command False s0) = confirmDialog s0 \<and>
         isExecuting (handleCommand command False s0) = isExecuting s0 \<and>
         enabled (AnalyzeSettled command (Inr analysis)) (handleCommand command False s0) \<and>
         fire P (AnalyzeSettled command (Inr analysis)) s =
           (settle (AwaitAnalyze command) s)
             \<lparr>confirmDialog :=
                \<lparr>cd_open = True, cd_command = command, cd_analysis = Some analysis\<rparr>\<rparr> \<and>
         (cd_open (confirmDialog t) \<and> cd_command (confirmDialog t) = command \<longrightarrow>
            enabled ExecuteAnywayClick t \<and>
            trace (fire P ExecuteAnywayClick t) =
              trace t @
              [Request (AwaitExecute
                 \<lparr>eb_command = command, eb_confirmed = True, eb_create_backup = True\<rparr>)] \<and>
            pending (fire P ExecuteAnywayClick t) =
              pending t @
              [AwaitExecute \<lparr>eb_command = command, eb_confirmed = True, eb_create_backup = True\<rparr>] \<and>
            confirmDialog (fire P ExecuteAnywayClick t) = closedDialog \<and>
            isExecuting (fire P ExecuteAnywayClick t)) \<and>
         (\<forall>es s'. run P es (fire P (AnalyzeSettled command (Inr analysis)) s) = Some s' \<longrightarrow>
            ExecuteAnywayClick \<notin> set es \<longrightarrow>
            (\<forall>r. AnalyzeSettled command r \<in> set es \<longrightarrow>
               (case r of Inr a \<Rightarrow> ca_requires_confirmation a | Inl err \<Rightarrow> False)) \<longrightarrow>
            filter (\<lambda>b. eb_command b = command) (executeRequests (trace s')) =
            filter (\<lambda>b. eb_command b = command) (executeRequests (trace s))) \<and>
         (\<forall>es s'. run P es (fire P (AnalyzeSettled command (Inr analysis)) s) = Some s' \<longrightarrow>
            ExecuteAnywayClick \<notin> set es \<longrightarrow>
            filter eb_confirmed (executeRequests (trace s')) =
            filter eb_confirmed (executeRequests (trace s)))"
proof -
  have nb: "trim command \<noteq> ''clear''" "trim command \<noteq> ''cls''"
    "\<not> startsWith (trim command) ''cd ''"
    using assms(3) by (simp_all add: builtIn_def)
  have submit: "handleCommand command False s0 =
      await (AwaitAnalyze command)
        (addLine L_input (currentDir s0 @ ''> '' @ command)
           (s0\<lparr>history := filter (\<lambda>c. c \<noteq> command) (history s0) @ [command],
               historyIndex := - 1\<rparr>))"
    using assms(2) nb by (simp add: handleCommand_def Let_def)
  have gate: "fire P (AnalyzeSettled command (Inr analysis)) s =
          (settle (AwaitAnalyze command) s)
            \<lparr>confirmDialog :=
               \<lparr>cd_open = True, cd_command = command, cd_analysis = Some analysis\<rparr>\<rparr>"
    using assms(1) by (simp add: handleCommand_analyzed_def)
  then have tr: "trace (fire P (AnalyzeSettled command (Inr analysis)) s) = trace s"
    by simp
  have approve: "enabled ExecuteAnywayClick t \<and>
      trace (fire P ExecuteAnywayClick t) =
        trace t @
        [Request (AwaitExecute
           \<lparr>eb_command = command, eb_confirmed = True, eb_create_backup = True\<rparr>)] \<and>
      pending (fire P ExecuteAnywayClick t) =
        pending t @
        [AwaitExecute \<lparr>eb_command = command, eb_confirmed = True, eb_create_backup = True\<rparr>] \<and>
      confirmDialog (fire P ExecuteAnywayClick t) = closedDialog \<and>
      isExecuting (fire P ExecuteAnywayClick t)"
    if "cd_open (confirmDialog t) \<and> cd_command (confirmDialog t) = command"
    using that assms(2) nb
    by (simp add: handleConfirmExecution_def handleCommand_def Let_def startExecute_def
          await_def addLine_def terminalApi_execute_body_def)
  have quiet: "filter (\<lambda>b. eb_command b = command) (executeRequests (trace s')) =
               filter (\<lambda>b. eb_command b = command) (executeRequests (trace s))"
    if "run P es (fire P (AnalyzeSettled command (Inr analysis)) s) = Some s'"
      and "ExecuteAnywayClick \<notin> set es"
      and "\<forall>r. AnalyzeSettled command r \<in> set es \<longrightarrow>
             (case r of Inr a \<Rightarrow> ca_requires_confirmation a | Inl err \<Rightarrow> False)"
    for es s'
    using no_execute_until_approval [OF that] tr by simp
  have unconfirmed: "filter eb_confirmed (executeRequests (trace s')) =
                     filter eb_confirmed (executeRequests (trace s))"
    if "run P es (fire P (AnalyzeSettled command (Inr analysis)) s) = Some s'"
      and "ExecuteAnywayClick \<notin> set es"
    for es s'
    using no_confirmed_execute_without_approval [OF that] tr by simp
  show ?thesis
    using gate approve quiet unconfirmed
    by (simp add: submit await_def addLine_def del: fire.simps enabled.simps) simp
qed

theorem confirmation_gate_witness:
  "ca_requires_confirmation rm_analysis \<and> trim rm_project \<noteq> [] \<and> \<not> builtIn rm_project \<and>
   trace (handleCommand rm_project False initial_terminal) =
     [Request AwaitGetCurrentDirectory, Request (AwaitAnalyze rm_project)] \<and>
   confirmDialog (fire Map.empty (AnalyzeSettled rm_project (Inr rm_analysis))
                    (handleCommand rm_project False initial_terminal)) =
     \<lparr>cd_open = True, cd_command = rm_project, cd_analysis = Some rm_analysis\<rparr> \<and>
   pending (fire Map.empty (AnalyzeSettled rm_project (Inr rm_analysis))
              (handleCommand rm_project False initial_terminal)) =
     [AwaitGetCurrentDirectory] \<and>
   run Map.empty [Change ''ls'', DialogCancel]
     (fire Map.empty (AnalyzeSettled rm_project (Inr rm_analysis))
        (handleCommand rm_project False initial_terminal)) =
     Some (fire Map.empty DialogCancel (fire Map.empty (Change ''ls'')
       (fire Map.empty (AnalyzeSettled rm_project (Inr rm_analysis))
          (handleCommand rm_project False initial_terminal)))) \<and>
   executeRequests (trace (fire Map.empty DialogCancel (fire Map.empty (Change ''ls'')
       (fire Map.empty (AnalyzeSettled rm_project (Inr rm_analysis))
          (handleCommand rm_project False initial_terminal))))) = [] \<and>
   executeRequests (trace (fire Map.empty ExecuteAnywayClick
       (fire Map.empty (AnalyzeSettled rm_project (Inr rm_analysis))
          (handleCommand rm_project False initial_terminal)))) =
     [\<lparr>eb_command = rm_project, eb_confirmed = True, eb_create_backup = True\<rparr>]"
proof -
  let ?s1 = "handleCommand rm_project False initial_terminal"
  let ?G = "fire Map.empty (AnalyzeSettled rm_project (Inr rm_analysis)) ?s1"
  let ?s' = "fire Map.empty DialogCancel (fire Map.empty (Change ''ls'') ?G)"
  have g: "ca_requires_confirmation rm_analysis"
    by (simp add: rm_analysis_def)
  have n: "trim rm_project \<noteq> []" "\<not> builtIn rm_project"
    by (simp_all add: builtIn_def string_defs rm_project_def)
  note th = confirmation_gate [OF g n, of initial_terminal Map.empty ?s1 ?G]
  have d: "confirmDialog ?G =
      \<lparr>cd_open = True, cd_command = rm_project, cd_analysis = Some rm_analysis\<rparr>"
    using th by (simp add: settle_def del: fire.simps)
  have r: "run Map.empty [Change ''ls'', DialogCancel] ?G = Some ?s'"
    by (simp add: terminal_defs string_defs rm_analysis_def rm_project_def)
  have t: "trace ?s1 = [Request AwaitGetCurrentDirectory, Request (AwaitAnalyze rm_project)]"
    using th by (simp add: initial_terminal_def del: fire.simps enabled.simps)
  have p: "pending ?G = [AwaitGetCurrentDirectory]"
    by (simp add: terminal_defs string_defs rm_project_def rm_analysis_def)
  have e: "executeRequests (trace ?s') = []"
    by (simp add: terminal_defs string_defs rm_project_def rm_analysis_def)
  have x: "executeRequests (trace (fire Map.empty ExecuteAnywayClick ?G)) =
      [\<lparr>eb_command = rm_project, eb_confirmed = True, eb_create_backup = True\<rparr>]"
  proof -
    have c: "cd_open (confirmDialog ?G) \<and> cd_command (confirmDialog ?G) = rm_project"
      by (simp add: d del: fire.simps)
    have "trace (fire Map.empty ExecuteAnywayClick ?G) =
        trace ?G @
        [Request (AwaitExecute
           \<lparr>eb_command = rm_project, eb_confirmed = True, eb_create_backup = True\<rparr>)]"
      using th c by blast
    moreover have "?G = (settle (AwaitAnalyze rm_project) ?s1)
        \<lparr>confirmDialog :=
           \<lparr>cd_open = True, cd_command = rm_project, cd_analysis = Some rm_analysis\<rparr>\<rparr>"
      using th by blast
    then have "trace ?G = trace ?s1"
      by (simp add: settle_def del: fire.simps)
    ultimately show ?thesis
      by (simp add: t del: fire.simps)
  qed
  show ?thesis
    by (intro conjI g n t d p r e x)
qed

text \<open>
  The claim as it stands fails. The dialog is shown for a command that needs confirmation
  and is cancelled; the command is entered again and this time the analysis is rejected.
  The handler then sends the execute request for the command, unconfirmed, although
  Execute Anyway was never clicked.
\<close>

theorem unconfirmed_execute_after_failed_analysis:
  "ca_requires_confirmation rm_analysis \<and>
   map_option (\<lambda>s. (cd_open (confirmDialog s), executeRequests (trace s)))
     (run Map.empty
        [Change rm_project, KeyDown (Enter False),
         AnalyzeSettled rm_project (Inr rm_analysis), DialogCancel,
         Change rm_project, KeyDown (Enter False),
         AnalyzeSettled rm_project (Inl \<lparr>err_message = ''Network Error'', err_detail = None\<rparr>)]
        initial_terminal) =
     Some (False, [\<lparr>eb_command = rm_project, eb_confirmed = False, eb_create_backup = True\<rparr>])"
  by (simp add: terminal_defs string_defs rm_analysis_def rm_project_def)

section \<open>The command history\<close>

text \<open>
  Claim C10. In every state the terminal can reach, the history has no duplicates. A call
  of \<open>handleCommand\<close> with white space only changes nothing; any other call leaves the
  history as the old one without the command, followed by the command, so the command
  occurs exactly once, in the last place, and the history is again free of duplicates.
\<close>

theorem history_duplicate_free:
  assumes "run P es initial_terminal = Some s"
  shows "distinct (history s) \<and>
         (let h = history (handleCommand command confirmed s)
          in if trim command = [] then handleCommand command confirmed s = s
             else h = filter (\<lambda>c. c \<noteq> command) (history s) @ [command] \<and>
                  count_list h command = 1 \<and> last h = command \<and> distinct h)"
proof -
  have d: "distinct (history s)"
    using distinct_run [OF assms] by (simp add: initial_terminal_def)
  show ?thesis
    using d by (auto simp: history_handleCommand Let_def count_list_filter_neq handleCommand_def)
qed

theorem history_duplicate_free_witness:
  "run Map.empty [Change ''ls'', KeyDown (Enter False)] initial_terminal = Some (entered ''ls'') \<and>
   history (entered ''ls'') = [''ls''] \<and>
   history (handleCommand ''pwd'' False (entered ''ls'')) = [''ls'', ''pwd''] \<and>
   history (handleCommand ''ls'' True (entered ''ls'')) = [''ls''] \<and>
   handleCommand ''  '' False (entered ''ls'') = entered ''ls''"
proof -
  have r: "run Map.empty [Change ''ls'', KeyDown (Enter False)] initial_terminal =
           Some (entered ''ls'')"
    by (simp add: entered_def initial_terminal_def)
  have h: "history (entered ''ls'') = [''ls'']"
    by (simp add: terminal_defs string_defs)
  have "trim ''pwd'' \<noteq> []" "trim ''ls'' \<noteq> []" "trim ''  '' = []"
    by (simp_all add: string_defs)
  with history_duplicate_free [OF r, of "''pwd''" False]
    history_duplicate_free [OF r, of "''ls''" True]
    history_duplicate_free [OF r, of "''  ''" False]
  show ?thesis
    using r h by (simp add: Let_def)
qed

section \<open>Built-in commands\<close>

text \<open>
  Claim C9, as amended. \<open>handleCommand\<close> tests the trimmed command. A command whose trimmed
  form is \<open>clear\<close> or \<open>cls\<close>, or begins with \<open>cd \<close>, is handled as a built-in for both
  values of \<open>confirmed\<close>: the only request it sends is the change of directory of the
  \<open>cd\<close> form, it leaves \<open>isExecuting\<close> and the confirmation dialog alone, and the
  answer to the change of directory sends nothing further.
\<close>

theorem builtIn_bypasses_gate:
  assumes "builtIn command"
  shows "trace (handleCommand command confirmed s) =
           trace s @
           (if startsWith (trim command) ''cd '' then
              [Request (AwaitChangeDirectory (trim (slice_from 3 (trim command))))]
            else []) \<and>
         isExecuting (handleCommand command confirmed s) = isExecuting s \<and>
         confirmDialog (handleCommand command confirmed s) = confirmDialog s \<and>
         trace (fire P (ChangeDirectorySettled path r) s) = trace s"
proof -
  have ne: "trim command \<noteq> []"
    using assms by (auto simp: builtIn_def startsWith_def)
  have excl: "startsWith (trim command) ''cd '' \<Longrightarrow>
              trim command \<noteq> ''clear'' \<and> trim command \<noteq> ''cls''"
    by (auto simp: startsWith_def)
  show ?thesis
    using assms ne excl
    by (auto simp: builtIn_def handleCommand_def Let_def await_def
          handleCommand_changedDirectory_def split: sum.split)
qed

theorem builtIn_bypasses_gate_witness:
  "builtIn ''cd /tmp'' \<and> builtIn '' clear '' \<and>
   trace (handleCommand ''cd /tmp'' True initial_terminal) =
     [Request AwaitGetCurrentDirectory, Request (AwaitChangeDirectory ''/tmp'')] \<and>
   trace (handleCommand '' clear '' False initial_terminal) = [Request AwaitGetCurrentDirectory]"
proof -
  have b: "builtIn ''cd /tmp''" "builtIn '' clear ''"
    by (simp_all add: builtIn_def string_defs)
  from builtIn_bypasses_gate [OF b(1), of True initial_terminal]
    builtIn_bypasses_gate [OF b(2), of False initial_terminal]
  show ?thesis
    using b by (simp add: string_defs initial_terminal_def)
qed

text \<open>The claim as it stands fails for \<open>cd\<close> followed by white space only: the trimmed form
  is \<open>cd\<close>, which does not begin with \<open>cd \<close>, so the command goes to the analysis and,
  when confirmed, to the execution.\<close>

theorem cd_blank_reaches_analysis:
  "startsWith ''cd '' ''cd '' \<and>
   trace (handleCommand ''cd '' False initial_terminal) =
     [Request AwaitGetCurrentDirectory, Request (AwaitAnalyze ''cd '')] \<and>
   trace (handleCommand ''cd '' True initial_terminal) =
     [Request AwaitGetCurrentDirectory,
      Request (AwaitExecute \<lparr>eb_command = ''cd '', eb_confirmed = True, eb_create_backup = True\<rparr>)]"
  by (simp add: terminal_defs string_defs)

section \<open>Failure of the analysis\<close>

text \<open>
  Claim C6. When the analysis of an unconfirmed submission is rejected, the handler logs
  \<open>Analysis failed:\<close> on the console and goes on to send the execute request for the
  command, unconfirmed: no line is added to the terminal, the dialog stays as it is and
  \<open>isExecuting\<close> is set. Such an answer is what the unconfirmed submission of a
  command that is neither blank nor built-in waits for.
\<close>

theorem analysis_failure_proceeds:
  "trace (fire P (AnalyzeSettled command (Inl err)) s) =
     trace s @
     [ConsoleError ''Analysis failed:'',
      Request (AwaitExecute
        \<lparr>eb_command = command, eb_confirmed = False, eb_create_backup = True\<rparr>)] \<and>
   pending (fire P (AnalyzeSettled command (Inl err)) s) =
     remove1 (AwaitAnalyze command) (pending s) @
     [AwaitExecute \<lparr>eb_command = command, eb_confirmed = False, eb_create_backup = True\<rparr>] \<and>
   lines (fire P (AnalyzeSettled command (Inl err)) s) = lines s \<and>
   confirmDialog (fire P (AnalyzeSettled command (Inl err)) s) = confirmDialog s \<and>
   isExecuting (fire P (AnalyzeSettled command (Inl err)) s) \<and>
   (trim command \<noteq> [] \<and> \<not> builtIn command \<longrightarrow>
      enabled (AnalyzeSettled command (Inl err)) (handleCommand command False s0))"
  by (auto simp: handleCommand_analyzed_def startExecute_def await_def emit_def settle_def
        terminalApi_execute_body_def handleCommand_def Let_def builtIn_def addLine_def)

theorem analysis_failure_proceeds_witness:
  "trim ''ls'' \<noteq> [] \<and> \<not> builtIn ''ls'' \<and>
   enabled (AnalyzeSettled ''ls'' (Inl \<lparr>err_message = ''Network Error'', err_detail = None\<rparr>))
     (handleCommand ''ls'' False initial_terminal) \<and>
   trace (fire Map.empty
            (AnalyzeSettled ''ls'' (Inl \<lparr>err_message = ''Network Error'', err_detail = None\<rparr>))
            (handleCommand ''ls'' False initial_terminal)) =
     [Request AwaitGetCurrentDirectory, Request (AwaitAnalyze ''ls''),
      ConsoleError ''Analysis failed:'',
      Request (AwaitExecute \<lparr>eb_command = ''ls'', eb_confirmed = False, eb_create_backup = True\<rparr>)]"
proof -
  have n: "trim ''ls'' \<noteq> []" "\<not> builtIn ''ls''"
    by (simp_all add: builtIn_def string_defs)
  from analysis_failure_proceeds [of Map.empty "''ls''"
      "\<lparr>err_message = ''Network Error'', err_detail = None\<rparr>"
      "handleCommand ''ls'' False initial_terminal" initial_terminal]
  show ?thesis
    using n by (simp add: trace_handleCommand initial_terminal_def string_defs
        del: fire.simps enabled.simps)
qed

section \<open>One command at a time\<close>




section \<open>The events of the execute stream\<close>










section \<open>The approval modal\<close>

lemmas app_defs = app_fire_def ApprovalModal_effect_def countdownDeps_def timerTick_def
  handleRunCommand_def handleRunCommand_analyzed_def handleApproveCommand_def
  handleApproveCommand_executed_def handleRejectCommand_def app_await_def app_emit_def
  app_settle_def approveDisabled_def modalShown_def initial_app_def
  terminalApi_execute_body_def

lemma app_run_append:
  "app_run P (es @ es') s = (case app_run P es s of None \<Rightarrow> None | Some t \<Rightarrow> app_run P es' t)"
  by (induction es arbitrary: s) simp_all

lemma critical_opens_countdown:
  assumes "aa_risk_level analysis = AR_critical"
    and "countdownDeps s \<noteq> (True, Some AR_critical)"
  shows "app_fire P (AppAnalyzeSettled command (Inr analysis)) s =
         (app_settle (AwaitAnalyze command) s)
           \<lparr>pendingCommand := Some command, commandAnalysis := Some analysis,
            approvalModalOpen := True, countdown := Some 5\<rparr>"
  using assms
  by (cases "commandAnalysis s")
     (auto simp: app_fire_def ApprovalModal_effect_def countdownDeps_def
        handleRunCommand_analyzed_def app_settle_def)

lemma app_fire_same_deps:
  assumes "countdownDeps (app_fire P e s) = countdownDeps s"
  shows "app_fire P e s = app_handle P e s"
  using assms
  by (simp add: app_fire_def ApprovalModal_effect_def countdownDeps_def split: if_splits)

lemma countdown_app_handle:
  assumes "app_enabled e s" and "countdown s = Some n"
  shows "countdown (app_handle P e s) = Some (if e = Tick then n - 1 else n)"
proof (cases e)
  case (AppExecuteChunk body chunk)
  have "countdown (terminalApi_execute_chunk P handleApproveCommand_onData
          (\<lambda>m. app_emit (ConsoleError m)) chunk s) = countdown s"
    by (rule execute_chunk_frame) (simp_all add: handleApproveCommand_onData_def app_emit_def)
  with AppExecuteChunk assms(2) show ?thesis by simp
qed (use assms in \<open>auto simp: handleRunCommand_def handleApproveCommand_def
      handleRejectCommand_def timerTick_def handleRunCommand_analyzed_def
      handleApproveCommand_executed_def app_await_def app_emit_def app_settle_def
      split: option.splits sum.splits\<close>)

lemma countdown_run:
  assumes "app_run P es s = Some s'"
    and "list_all (\<lambda>t. countdownDeps t = (True, Some AR_critical)) (app_states P es s)"
    and "countdownDeps s = (True, Some AR_critical)"
    and "countdown s = Some n" and "0 \<le> n"
  shows "countdown s' = Some (n - int (count_list es Tick)) \<and> int (count_list es Tick) \<le> n"
  using assms
proof (induction es arbitrary: s n)
  case Nil
  then show ?case by simp
next
  case (Cons e es)
  from Cons.prems(1) have en: "app_enabled e s" and r: "app_run P es (app_fire P e s) = Some s'"
    by (auto split: if_splits)
  from Cons.prems(2) have d: "countdownDeps (app_fire P e s) = (True, Some AR_critical)"
    and l: "list_all (\<lambda>t. countdownDeps t = (True, Some AR_critical))
              (app_states P es (app_fire P e s))"
    by simp_all
  have h: "app_fire P e s = app_handle P e s"
    using d Cons.prems(3) by (intro app_fire_same_deps) simp
  have c: "countdown (app_fire P e s) = Some (if e = Tick then n - 1 else n)"
    unfolding h using en Cons.prems(4) by (rule countdown_app_handle)
  have pos: "0 < n" if "e = Tick"
    using that en Cons.prems(4) by simp
  have nn: "0 \<le> (if e = Tick then n - 1 else n)"
    using pos Cons.prems(5) by auto
  from Cons.IH [OF r l d c nn] show ?case
    by (auto split: if_splits)
qed

text \<open>
  Claim C2, as amended. When a critical analysis arrives while the approval modal is not
  already open with a critical risk level, the modal is open with that analysis and its
  countdown is set to 5. From then on, whatever events occur, as long as the modal stays
  open with a critical risk level the countdown is 5 less the number of firings of the
  1000 ms timer: there are at most five of them, the approve button is disabled while
  there have been fewer than five, and after the fifth it is disabled only while an
  approval is loading. The countdown is state of the modal and is counted from the moment
  the modal became critical, not per command; \<open>handleApproveCommand\<close> does not look at it.
\<close>

theorem approve_disabled_during_countdown:
  assumes "aa_risk_level analysis = AR_critical"
    and "countdownDeps s \<noteq> (True, Some AR_critical)"
    and "app_run P es (app_fire P (AppAnalyzeSettled command (Inr analysis)) s) = Some s'"
    and "list_all (\<lambda>t. countdownDeps t = (True, Some AR_critical))
           (app_states P es (app_fire P (AppAnalyzeSettled command (Inr analysis)) s))"
  shows "app_fire P (AppAnalyzeSettled command (Inr analysis)) s =
           (app_settle (AwaitAnalyze command) s)
             \<lparr>pendingCommand := Some command, commandAnalysis := Some analysis,
              approvalModalOpen := True, countdown := Some 5\<rparr> \<and>
         countdown s' = Some (5 - int (count_list es Tick)) \<and>
         count_list es Tick \<le> 5 \<and>
         approveDisabled s' = (approvalLoading s' \<or> count_list es Tick < 5) \<and>
         (count_list es Tick < 5 \<longrightarrow> \<not> app_enabled ApproveClick s')"
proof -
  let ?s1 = "app_fire P (AppAnalyzeSettled command (Inr analysis)) s"
  have o: "?s1 = (app_settle (AwaitAnalyze command) s)
             \<lparr>pendingCommand := Some command, commandAnalysis := Some analysis,
              approvalModalOpen := True, countdown := Some 5\<rparr>"
    using assms(1,2) by (rule critical_opens_countdown)
  have d: "countdownDeps ?s1 = (True, Some AR_critical)"
    unfolding o using assms(1) by (simp add: countdownDeps_def)
  have c: "countdown ?s1 = Some 5"
    unfolding o by simp
  have k: "countdown s' = Some (5 - int (count_list es Tick)) \<and> int (count_list es Tick) \<le> 5"
    using countdown_run [OF assms(3,4) d c] by simp
  then show ?thesis
    using o by (auto simp: approveDisabled_def)
qed

theorem approve_disabled_during_countdown_witness:
  "aa_risk_level rm_approval = AR_critical \<and>
   countdownDeps (app_fire Map.empty (RunCommand rm_project) initial_app) \<noteq>
     (True, Some AR_critical) \<and>
   list_all (\<lambda>t. countdownDeps t = (True, Some AR_critical))
     (app_states Map.empty countdown_events critical_shown) \<and>
   count_list countdown_events Tick = 4 \<and>
   map_option countdown (app_run Map.empty countdown_events critical_shown) = Some (Some 1) \<and>
   map_option pendingCommand (app_run Map.empty countdown_events critical_shown) =
     Some (Some rm_root) \<and>
   app_run Map.empty (countdown_events @ [ApproveClick]) critical_shown = None"
proof -
  have a: "aa_risk_level rm_approval = AR_critical"
    by (simp add: rm_approval_def)
  have b: "countdownDeps (app_fire Map.empty (RunCommand rm_project) initial_app) \<noteq>
      (True, Some AR_critical)"
    by (simp add: app_defs)
  have l: "list_all (\<lambda>t. countdownDeps t = (True, Some AR_critical))
      (app_states Map.empty countdown_events critical_shown)"
    by (simp add: countdown_events_def critical_shown_def app_defs rm_approval_def)
  have n: "count_list countdown_events Tick = 4"
    by (simp add: countdown_events_def)
  obtain s' where r: "app_run Map.empty countdown_events critical_shown = Some s'"
    and p: "pendingCommand s' = Some rm_root"
    by (simp add: countdown_events_def critical_shown_def app_defs rm_approval_def)
  note th = approve_disabled_during_countdown [OF a b
      r [unfolded critical_shown_def] l [unfolded critical_shown_def]]
  have c: "countdown s' = Some 1" and x: "\<not> app_enabled ApproveClick s'"
    using th n by simp_all
  have "app_run Map.empty (countdown_events @ [ApproveClick]) critical_shown = None"
    using r x by (simp add: app_run_append)
  then show ?thesis
    using a b l n r c p by simp
qed

text \<open>
  The claim as it stands fails on three paths. Called while the countdown of the modal
  still stands at 5, \<open>handleApproveCommand\<close> sends the execute request. The confirmation
  dialog of the terminal has no countdown at all: for a critical command the Execute
  Anyway button sends the execute request as soon as the dialog is open. And a critical
  command whose analysis arrives while the modal is already open for another critical
  command, with the countdown run down, replaces it and is approved by the button without
  any wait.
\<close>

theorem approval_during_cooldown:
  "map_option
     (\<lambda>s. (countdown s, approveDisabled s, executeRequests (app_trace (handleApproveCommand True s))))
     (app_run Map.empty [RunCommand rm_project, AppAnalyzeSettled rm_project (Inr rm_approval)]
        initial_app) =
     Some (Some 5, True,
           [\<lparr>eb_command = rm_project, eb_confirmed = True, eb_create_backup = True\<rparr>]) \<and>
   ca_risk_level rm_analysis = RL_critical \<and>
   map_option (\<lambda>s. executeRequests (trace s))
     (run Map.empty [Change rm_project, KeyDown (Enter False),
                     AnalyzeSettled rm_project (Inr rm_analysis), ExecuteAnywayClick]
        initial_terminal) =
     Some [\<lparr>eb_command = rm_project, eb_confirmed = True, eb_create_backup = True\<rparr>] \<and>
   map_option (\<lambda>s. executeRequests (app_trace s))
     (app_run Map.empty
        [RunCommand rm_project, RunCommand rm_root,
         AppAnalyzeSettled rm_project (Inr rm_approval), Tick, Tick, Tick, Tick, Tick,
         AppAnalyzeSettled rm_root (Inr rm_approval), ApproveClick]
        initial_app) =
     Some [\<lparr>eb_command = rm_root, eb_confirmed = True, eb_create_backup = True\<rparr>]"
  by (simp add: app_defs terminal_defs string_defs rm_approval_def rm_analysis_def rm_project_def
        rm_root_def)

section \<open>The backup choice\<close>

text \<open>
  Claim C3 asks that the value of the backup checkbox reach the execute request. It does
  not: \<open>handleApproveCommand\<close> never reads its argument, and \<open>terminalApi.execute\<close> always
  posts \<open>create_backup: true\<close>. After the user has cleared the checkbox and approved, the
  request still asks for a backup.
\<close>

theorem backup_choice_dropped:
  "handleApproveCommand False s = handleApproveCommand True s \<and>
   eb_create_backup (terminalApi_execute_body command confirmed) \<and>
   map_option (\<lambda>s. (createBackup s, executeRequests (app_trace s)))
     (app_run Map.empty
        [RunCommand rm_project, AppAnalyzeSettled rm_project (Inr rm_approval),
         Tick, Tick, Tick, Tick, Tick, BackupCheckbox False, ApproveClick]
        initial_app) =
     Some (False, [\<lparr>eb_command = rm_project, eb_confirmed = True, eb_create_backup = True\<rparr>])"
  by (simp add: app_defs rm_approval_def rm_project_def)

theorem backup_choice_dropped_witness:
  "handleApproveCommand False
     (initial_app\<lparr>pendingCommand := Some rm_project, commandAnalysis := Some rm_approval,
                  approvalModalOpen := True, createBackup := False\<rparr>) =
   (initial_app\<lparr>pendingCommand := Some rm_project, commandAnalysis := Some rm_approval,
                 approvalModalOpen := True, createBackup := False, approvalLoading := True,
                 app_pending := [AwaitExecute (terminalApi_execute_body rm_project True)],
                 app_trace := [Request (AwaitExecute (terminalApi_execute_body rm_project True))]\<rparr>) \<and>
   eb_create_backup (terminalApi_execute_body rm_project True)"
  using backup_choice_dropped [of
      "initial_app\<lparr>pendingCommand := Some rm_project, commandAnalysis := Some rm_approval,
                   approvalModalOpen := True, createBackup := False\<rparr>" rm_project True]
  by (simp add: handleApproveCommand_def app_await_def initial_app_def rm_project_def)

section \<open>When the gate is interposed\<close>

text \<open>
  Claim C4, as amended. The client does not compute \<open>requires_confirmation\<close>. In App,
  \<open>handleRunCommand\<close> opens the approval modal exactly when the risk level of the analysis
  is \<open>high\<close> or \<open>critical\<close>, whatever \<open>reversible\<close> says. In Terminal, \<open>handleCommand\<close>
  opens the confirmation dialog exactly when the field \<open>requires_confirmation\<close> of the
  analysis it received is set, and sends the execute request otherwise.
\<close>

theorem gate_conditions:
  "approvalModalOpen (handleRunCommand_analyzed command (Inr analysis) s) =
     (approvalModalOpen s \<or> aa_risk_level analysis = AR_high \<or>
      aa_risk_level analysis = AR_critical) \<and>
   cd_open (confirmDialog (handleCommand_analyzed command (Inr analysis') t)) =
     (cd_open (confirmDialog t) \<or> ca_requires_confirmation analysis') \<and>
   inFlight (handleCommand_analyzed command (Inr analysis') t) =
     inFlight t @
     (if ca_requires_confirmation analysis' then []
      else [\<lparr>eb_command = command, eb_confirmed = False, eb_create_backup = True\<rparr>])"
  by (simp add: handleRunCommand_analyzed_def handleCommand_analyzed_def startExecute_def
        await_def inFlight_def terminalApi_execute_body_def)

theorem gate_conditions_witness:
  "approvalModalOpen (handleRunCommand_analyzed rm_project (Inr rm_approval) initial_app) \<and>
   cd_open (confirmDialog (handleCommand_analyzed rm_project (Inr rm_analysis) initial_terminal)) \<and>
   inFlight (handleCommand_analyzed ''ls'' (Inr (plain_analysis ''ls'')) initial_terminal) =
     [\<lparr>eb_command = ''ls'', eb_confirmed = False, eb_create_backup = True\<rparr>]"
  using gate_conditions [of rm_project rm_approval initial_app rm_analysis initial_terminal]
    gate_conditions [of "''ls''" rm_approval initial_app "plain_analysis ''ls''" initial_terminal]
  by (simp add: rm_approval_def rm_analysis_def plain_analysis_def inFlight_def
        initial_terminal_def)

text \<open>The claim as it stands fails in App: an analysis of medium risk that is not
  reversible does not open the approval modal, and nothing is left pending for it.\<close>

theorem irreversible_medium_not_gated:
  "aa_risk_level shred_approval = AR_medium \<and> \<not> aa_reversible shred_approval \<and>
   map_option (\<lambda>s. (approvalModalOpen s, pendingCommand s, app_pending s))
     (app_run Map.empty [RunCommand shred_notes, AppAnalyzeSettled shred_notes (Inr shred_approval)]
        initial_app) = Some (False, None, [])"
  by (simp add: app_defs shred_approval_def)

section \<open>The two shapes of an analysis\<close>

text \<open>
  Claim C8, as amended. The \<open>CommandAnalysis\<close> that App and ApprovalModal declare has the
  risk levels \<open>safe\<close>, \<open>low\<close>, \<open>medium\<close>, \<open>high\<close> and \<open>critical\<close> and is made of
  \<open>risk_level\<close>, \<open>risk_score\<close>, \<open>category\<close>, \<open>actions\<close>, \<open>affected_paths\<close>,
  \<open>reversible\<close>, \<open>requires_sudo\<close>, \<open>warnings\<close> and \<open>recommendations\<close>; \<open>safe\<close> is
  a risk level there, shown by the modal as \<open>Safe\<close>. The shared \<open>CommandAnalysis\<close> that
  Terminal uses has the risk levels \<open>low\<close>, \<open>medium\<close>, \<open>high\<close> and \<open>critical\<close>
  and is made of \<open>command\<close>, \<open>is_risky\<close>, \<open>risk_level\<close>, \<open>reason\<close>,
  \<open>affected_paths\<close>, \<open>requires_confirmation\<close> and \<open>backup_recommended\<close>.
\<close>

theorem analysis_shapes:
  "range ApprovalRiskLevel_literal = {''safe'', ''low'', ''medium'', ''high'', ''critical''} \<and>
   (\<exists>l n c a p r u w m.
      (x :: ApprovalAnalysis) =
        \<lparr>aa_risk_level = l, aa_risk_score = n, aa_category = c, aa_actions = a,
         aa_affected_paths = p, aa_reversible = r, aa_requires_sudo = u, aa_warnings = w,
         aa_recommendations = m\<rparr>) \<and>
   ApprovalRiskLevel_literal (aa_risk_level ls_approval) = ''safe'' \<and>
   rc_label (riskConfig (aa_risk_level ls_approval)) = ''Safe'' \<and>
   range RiskLevel_literal = {''low'', ''medium'', ''high'', ''critical''} \<and>
   (\<exists>c i l r p q b.
      (y :: CommandAnalysis) =
        \<lparr>ca_command = c, ca_is_risky = i, ca_risk_level = l, ca_reason = r,
         ca_affected_paths = p, ca_requires_confirmation = q, ca_backup_recommended = b\<rparr>)"
proof (intro conjI)
  show "range ApprovalRiskLevel_literal = {''safe'', ''low'', ''medium'', ''high'', ''critical''}"
  proof
    show "range ApprovalRiskLevel_literal \<subseteq> {''safe'', ''low'', ''medium'', ''high'', ''critical''}"
    proof
      fix v assume "v \<in> range ApprovalRiskLevel_literal"
      then obtain l where "v = ApprovalRiskLevel_literal l" by auto
      then show "v \<in> {''safe'', ''low'', ''medium'', ''high'', ''critical''}"
        by (cases l) simp_all
    qed
    have "ApprovalRiskLevel_literal AR_safe \<in> range ApprovalRiskLevel_literal"
      "ApprovalRiskLevel_literal AR_low \<in> range ApprovalRiskLevel_literal"
      "ApprovalRiskLevel_literal AR_medium \<in> range ApprovalRiskLevel_literal"
      "ApprovalRiskLevel_literal AR_high \<in> range ApprovalRiskLevel_literal"
      "ApprovalRiskLevel_literal AR_critical \<in> range ApprovalRiskLevel_literal"
      by (rule rangeI)+
    then show "{''safe'', ''low'', ''medium'', ''high'', ''critical''} \<subseteq> range ApprovalRiskLevel_literal"
      by simp
  qed
  show "range RiskLevel_literal = {''low'', ''medium'', ''high'', ''critical''}"
  proof
    show "range RiskLevel_literal \<subseteq> {''low'', ''medium'', ''high'', ''critical''}"
    proof
      fix v assume "v \<in> range RiskLevel_literal"
      then obtain l where "v = RiskLevel_literal l" by auto
      then show "v \<in> {''low'', ''medium'', ''high'', ''critical''}"
        by (cases l) simp_all
    qed
    have "RiskLevel_literal RL_low \<in> range RiskLevel_literal"
      "RiskLevel_literal RL_medium \<in> range RiskLevel_literal"
      "RiskLevel_literal RL_high \<in> range RiskLevel_literal"
      "RiskLevel_literal RL_critical \<in> range RiskLevel_literal"
      by (rule rangeI)+
    then show "{''low'', ''medium'', ''high'', ''critical''} \<subseteq> range RiskLevel_literal"
      by simp
  qed
  show "\<exists>l n c a p r u w m. x =
        \<lparr>aa_risk_level = l, aa_risk_score = n, aa_category = c, aa_actions = a,
         aa_affected_paths = p, aa_reversible = r, aa_requires_sudo = u, aa_warnings = w,
         aa_recommendations = m\<rparr>"
    by (cases x) blast
  show "\<exists>c i l r p q b. y =
        \<lparr>ca_command = c, ca_is_risky = i, ca_risk_level = l, ca_reason = r,
         ca_affected_paths = p, ca_requires_confirmation = q, ca_backup_recommended = b\<rparr>"
    by (cases y) blast
qed (simp_all add: ls_approval_def)

theorem analysis_shapes_witness:
  "''safe'' \<in> range ApprovalRiskLevel_literal \<and>
   ApprovalRiskLevel_literal (aa_risk_level ls_approval) = ''safe'' \<and>
   ''critical'' \<in> range RiskLevel_literal"
  using analysis_shapes [of ls_approval rm_analysis] by simp

text \<open>The claim as it stands fails for the shared type: none of its risk levels is
  \<open>safe\<close>.\<close>

theorem shared_RiskLevel_without_safe:
  "''safe'' \<notin> range RiskLevel_literal"
proof
  assume "''safe'' \<in> range RiskLevel_literal"
  then obtain l where "RiskLevel_literal l = ''safe''" by auto
  then show False by (cases l) simp_all
qed

end
